theory Spec2Isabelle
  imports Complex_Main
begin

section \<open>Values read from the waiver export\<close>

text \<open>
  A cell of the data frame that \<^verbatim>\<open>pd.read_csv\<close> builds from the export is either
  missing (\<^verbatim>\<open>NaN\<close>, for which \<^verbatim>\<open>pd.isna\<close> holds) or a string. Characters are the
  code points 0 to 255.
\<close>

datatype cell = NaN | Str string

text \<open>\<^verbatim>\<open>pd.isna(x)\<close> on a cell.\<close>

fun isna :: "cell \<Rightarrow> bool" where
  "isna NaN = True"
| "isna (Str s) = False"

text \<open>\<^verbatim>\<open>not x\<close> on a cell: \<^verbatim>\<open>NaN\<close> is a non-zero float and so is truthy; a string is
  falsy when it is empty.\<close>

fun py_not :: "cell \<Rightarrow> bool" where
  "py_not NaN = False"
| "py_not (Str s) = (s = [])"

text \<open>\<^verbatim>\<open>str(x)\<close> and the rendering of a cell inside an f-string.\<close>

fun py_str :: "cell \<Rightarrow> string" where
  "py_str NaN = ''nan''"
| "py_str (Str s) = s"

section \<open>Configuration and the scope type mapping\<close>

definition IQ_SERVER_URL :: string where
  "IQ_SERVER_URL = ''http://localhost:8070''"

definition API_BASE :: string where
  "API_BASE = IQ_SERVER_URL @ ''/api/v2''"

definition SCOPE_TYPE_MAP :: "(string \<times> string) list" where
  "SCOPE_TYPE_MAP =
     [(''root_organization'', ''organization''),
      (''organization'', ''organization''),
      (''application'', ''application''),
      (''repository'', ''repository''),
      (''repository_container'', ''repository_container'')]"

text \<open>\<^verbatim>\<open>SCOPE_TYPE_MAP.get(original_scope_type)\<close>: \<^verbatim>\<open>None\<close> for a key that is not in the
  dictionary; a missing cell is not a key.\<close>

fun SCOPE_TYPE_MAP_get :: "cell \<Rightarrow> string option" where
  "SCOPE_TYPE_MAP_get NaN = None"
| "SCOPE_TYPE_MAP_get (Str k) = map_of SCOPE_TYPE_MAP k"

text \<open>\<^verbatim>\<open>not delete_scope_type\<close>: true for \<^verbatim>\<open>None\<close> and for the empty string.\<close>

fun not_scope :: "string option \<Rightarrow> bool" where
  "not_scope None = True"
| "not_scope (Some t) = (t = [])"

section \<open>The API helper\<close>

text \<open>
  What \<^verbatim>\<open>requests.request\<close> does is outside the program: it either raises or returns a
  response. The exceptions are grouped by the \<^verbatim>\<open>except\<close> clause of
  \<^verbatim>\<open>make_api_request\<close> that catches them, in the order of the clauses.
  \<^verbatim>\<open>json_body\<close> is what \<^verbatim>\<open>response.json()\<close> yields, \<open>None\<close> when the body does
  not decode (a \<^verbatim>\<open>JSONDecodeError\<close>, which is a \<^verbatim>\<open>RequestException\<close>).
\<close>

datatype request_exn = Timeout | ConnectionError | OtherRequestException

datatype json =
    JNull
  | JBool bool
  | JNum rat
  | JStr string
  | JArr "json list"
  | JObj "(string \<times> json) list"

record response =
  status_code :: nat
  text_body :: string
  json_body :: "json option"

datatype http_outcome = Raised request_exn | Returned response

text \<open>The value \<^verbatim>\<open>make_api_request\<close> returns.\<close>

datatype api_result = RTrue | REmptyList | RJson json | RNone

fun json_truthy :: "json \<Rightarrow> bool" where
  "json_truthy JNull = False"
| "json_truthy (JBool b) = b"
| "json_truthy (JNum r) = (r \<noteq> 0)"
| "json_truthy (JStr s) = (s \<noteq> [])"
| "json_truthy (JArr xs) = (xs \<noteq> [])"
| "json_truthy (JObj kvs) = (kvs \<noteq> [])"

text \<open>\<^verbatim>\<open>if success:\<close> on the returned value.\<close>

fun truthy :: "api_result \<Rightarrow> bool" where
  "truthy RTrue = True"
| "truthy REmptyList = False"
| "truthy (RJson j) = json_truthy j"
| "truthy RNone = False"

text \<open>
  What the program does to the outside, in the order it does it: the prompt, the HTTP
  requests, and the lines it prints that report an outcome.
\<close>

datatype event =
    Input_prompt
  | Http_request string string
  | Err_timeout string
  | Err_connect string
  | Err_http nat string string
  | Err_unexpected string
  | Warn_unparseable cell cell
  | Marked_for_deletion cell cell
  | Err_unknown_scope cell cell
  | Err_missing_scope_id cell
  | Attempting string
  | Deleted_ok cell
  | Delete_failed cell
  | Deletion_complete nat nat
  | Deletion_cancelled
  | No_expired_waivers

text \<open>\<^verbatim>\<open>response.raise_for_status()\<close> raises an \<^verbatim>\<open>HTTPError\<close> for a 4xx or 5xx status.\<close>

definition raises_for_status :: "nat \<Rightarrow> bool" where
  "raises_for_status st = (400 \<le> st \<and> st < 600)"

definition make_api_request ::
  "('w \<Rightarrow> string \<Rightarrow> string \<Rightarrow> http_outcome \<times> 'w) \<Rightarrow> string \<Rightarrow> string \<Rightarrow> 'w
     \<Rightarrow> api_result \<times> event list \<times> 'w" where
  "make_api_request request method endpoint w =
     (let url = API_BASE @ ''/'' @ endpoint in
      case request w method url of
        (Raised Timeout, w') \<Rightarrow> (RNone, [Http_request method url, Err_timeout url], w')
      | (Raised ConnectionError, w') \<Rightarrow> (RNone, [Http_request method url, Err_connect url], w')
      | (Raised OtherRequestException, w') \<Rightarrow>
          (RNone, [Http_request method url, Err_unexpected url], w')
      | (Returned r, w') \<Rightarrow>
          if raises_for_status (status_code r)
          then (RNone, [Http_request method url, Err_http (status_code r) method url], w')
          else if status_code r = 204 \<and> method = ''DELETE''
          then (RTrue, [Http_request method url], w')
          else if status_code r = 200 \<and> text_body r = []
          then (REmptyList, [Http_request method url], w')
          else (case json_body r of
                  None \<Rightarrow> (RNone, [Http_request method url, Err_unexpected url], w')
                | Some j \<Rightarrow> (RJson j, [Http_request method url], w')))"

section \<open>The confirmation token\<close>

text \<open>\<^verbatim>\<open>str.strip()\<close> removes the characters for which \<^verbatim>\<open>str.isspace\<close> holds from
  both ends.\<close>

definition whitespace :: "char list" where
  "whitespace =
     [CHR 0x09, CHR 0x0A, CHR 0x0B, CHR 0x0C, CHR 0x0D, CHR 0x1C, CHR 0x1D, CHR 0x1E,
      CHR 0x1F, CHR 0x20, CHR 0x85, CHR 0xA0]"

definition isspace :: "char \<Rightarrow> bool" where
  "isspace c = (c \<in> set whitespace)"

definition py_strip :: "string \<Rightarrow> string" where
  "py_strip s = rev (dropWhile isspace (rev (dropWhile isspace s)))"

text \<open>
  \<^verbatim>\<open>str.upper()\<close>, character by character. The sharp s becomes two letters. The upper
  case forms of the micro sign (0xB5) and of y with diaeresis (0xFF) lie beyond code
  point 255; they stand for themselves here, which like their real upper case forms are
  no ASCII letters.
\<close>

definition lower_letters :: "char list" where
  "lower_letters = ''abcdefghijklmnopqrstuvwxyz'' @
     [CHR 0xE0, CHR 0xE1, CHR 0xE2, CHR 0xE3, CHR 0xE4, CHR 0xE5, CHR 0xE6, CHR 0xE7,
      CHR 0xE8, CHR 0xE9, CHR 0xEA, CHR 0xEB, CHR 0xEC, CHR 0xED, CHR 0xEE, CHR 0xEF,
      CHR 0xF0, CHR 0xF1, CHR 0xF2, CHR 0xF3, CHR 0xF4, CHR 0xF5, CHR 0xF6,
      CHR 0xF8, CHR 0xF9, CHR 0xFA, CHR 0xFB, CHR 0xFC, CHR 0xFD, CHR 0xFE]"

definition upper_letters :: "char list" where
  "upper_letters = ''ABCDEFGHIJKLMNOPQRSTUVWXYZ'' @
     [CHR 0xC0, CHR 0xC1, CHR 0xC2, CHR 0xC3, CHR 0xC4, CHR 0xC5, CHR 0xC6, CHR 0xC7,
      CHR 0xC8, CHR 0xC9, CHR 0xCA, CHR 0xCB, CHR 0xCC, CHR 0xCD, CHR 0xCE, CHR 0xCF,
      CHR 0xD0, CHR 0xD1, CHR 0xD2, CHR 0xD3, CHR 0xD4, CHR 0xD5, CHR 0xD6,
      CHR 0xD8, CHR 0xD9, CHR 0xDA, CHR 0xDB, CHR 0xDC, CHR 0xDD, CHR 0xDE]"

definition upper_char :: "char \<Rightarrow> string" where
  "upper_char c =
     (if c = CHR 0xDF then ''SS''
      else case map_of (zip lower_letters upper_letters) c of
             Some u \<Rightarrow> [u]
           | None \<Rightarrow> [c])"

definition py_upper :: "string \<Rightarrow> string" where
  "py_upper s = concat (map upper_char s)"

text \<open>\<^verbatim>\<open>confirm.strip().upper() == "DELETE"\<close>\<close>

definition confirmed :: "string \<Rightarrow> bool" where
  "confirmed confirm = (py_upper (py_strip confirm) = ''DELETE'')"

section \<open>The deletion section of the main program\<close>

text \<open>An element of \<^verbatim>\<open>expired_waivers_to_delete\<close>.\<close>

record waiver =
  Waiver_Id :: cell
  Scope_Type :: cell
  Scope_Id :: cell
  Expiration_Date :: cell
  Component_Name :: cell

text \<open>The counters and the outside world while the deletion loop runs; \<open>trace\<close> collects
  the events in the order they happen.\<close>

record 'w run =
  deleted_count :: nat
  failed_count :: nat
  trace :: "event list"
  world :: 'w

text \<open>One pass of the body of \<^verbatim>\<open>for waiver in expired_waivers_to_delete\<close>.\<close>

definition delete_one ::
  "('w \<Rightarrow> string \<Rightarrow> string \<Rightarrow> http_outcome \<times> 'w) \<Rightarrow> waiver \<Rightarrow> 'w run \<Rightarrow> 'w run" where
  "delete_one request waiver st =
     (let waiver_id = Waiver_Id waiver;
          original_scope_type = Scope_Type waiver;
          owner_id = Scope_Id waiver;
          delete_scope_type = SCOPE_TYPE_MAP_get original_scope_type
      in if not_scope delete_scope_type
         then st\<lparr>failed_count := failed_count st + 1,
                 trace := trace st @ [Err_unknown_scope original_scope_type waiver_id]\<rparr>
         else if isna owner_id \<or> py_not owner_id
         then st\<lparr>failed_count := failed_count st + 1,
                 trace := trace st @ [Err_missing_scope_id waiver_id]\<rparr>
         else
           (let endpoint = ''policyWaivers/'' @ the delete_scope_type @ ''/'' @ py_str owner_id
                             @ ''/'' @ py_str waiver_id;
                (success, evs, w') = make_api_request request ''DELETE'' endpoint (world st)
            in if truthy success
               then st\<lparr>deleted_count := deleted_count st + 1,
                       trace := trace st @ [Attempting endpoint] @ evs @ [Deleted_ok waiver_id],
                       world := w'\<rparr>
               else st\<lparr>failed_count := failed_count st + 1,
                       trace := trace st @ [Attempting endpoint] @ evs @ [Delete_failed waiver_id],
                       world := w'\<rparr>))"

fun delete_loop ::
  "('w \<Rightarrow> string \<Rightarrow> string \<Rightarrow> http_outcome \<times> 'w) \<Rightarrow> waiver list \<Rightarrow> 'w run \<Rightarrow> 'w run" where
  "delete_loop request [] st = st"
| "delete_loop request (waiver # rest) st = delete_loop request rest (delete_one request waiver st)"

text \<open>
  The deletion section: nothing to do for an empty list; otherwise one call of
  \<^verbatim>\<open>input\<close>, and the loop when the answer is the token. The counters exist only in the
  confirmed branch, so the summary is \<open>None\<close> in the other two.
\<close>

definition deletion_section ::
  "('w \<Rightarrow> string \<Rightarrow> string \<Rightarrow> http_outcome \<times> 'w) \<Rightarrow> ('w \<Rightarrow> string \<times> 'w) \<Rightarrow> waiver list \<Rightarrow> 'w
     \<Rightarrow> (nat \<times> nat) option \<times> event list \<times> 'w" where
  "deletion_section request input expired_waivers_to_delete w =
     (if expired_waivers_to_delete = [] then (None, [No_expired_waivers], w)
      else
        (let (confirm, w1) = input w in
         if confirmed confirm
         then (let st = delete_loop request expired_waivers_to_delete
                          \<lparr>deleted_count = 0, failed_count = 0, trace = [Input_prompt], world = w1\<rparr>
               in (Some (deleted_count st, failed_count st),
                   trace st @ [Deletion_complete (deleted_count st) (failed_count st)],
                   world st))
         else (None, [Input_prompt, Deletion_cancelled], w1)))"

section \<open>The scope type mapping\<close>

text \<open>
  C3 (as the source has it). The keys of the mapping are \<^verbatim>\<open>root_organization\<close>,
  \<^verbatim>\<open>organization\<close>, \<^verbatim>\<open>application\<close>, \<^verbatim>\<open>repository\<close> and \<^verbatim>\<open>repository_container\<close>.
  Each of them has a non-empty path token, \<^verbatim>\<open>root_organization\<close> has the token of
  \<^verbatim>\<open>organization\<close>, and a scope type is reported as unknown exactly when it is none
  of the five keys.
\<close>

theorem scope_resolver_vocabulary:
  "SCOPE_TYPE_MAP_get (Str ''root_organization'') = Some ''organization''
   \<and> SCOPE_TYPE_MAP_get (Str ''organization'') = Some ''organization''
   \<and> SCOPE_TYPE_MAP_get (Str ''application'') = Some ''application''
   \<and> SCOPE_TYPE_MAP_get (Str ''repository'') = Some ''repository''
   \<and> SCOPE_TYPE_MAP_get (Str ''repository_container'') = Some ''repository_container''
   \<and> SCOPE_TYPE_MAP_get (Str ''root_organization'') = SCOPE_TYPE_MAP_get (Str ''organization'')
   \<and> (not_scope (SCOPE_TYPE_MAP_get c)
        = (c \<notin> Str ` {''root_organization'', ''organization'', ''application'',
                         ''repository'', ''repository_container''}))"
  by (cases c) (auto simp: SCOPE_TYPE_MAP_def)

text \<open>
  C3 (as the specification words it). The specification's fifth scope kind,
  repository-group, is no key of the mapping under either spelling, so the resolver
  reports it as unknown; and \<^verbatim>\<open>repository_container\<close>, which the specification's
  vocabulary does not list, has a path token.
\<close>

theorem scope_resolver_repository_group_counterexample:
  "not_scope (SCOPE_TYPE_MAP_get (Str ''repository_group''))
   \<and> not_scope (SCOPE_TYPE_MAP_get (Str ''repository-group''))
   \<and> \<not> not_scope (SCOPE_TYPE_MAP_get (Str ''repository_container''))"
  by (simp add: SCOPE_TYPE_MAP_def)

end
